theory Spec2Isabelle
  imports Main
begin

section \<open>Data model of package telegram\<close>

text \<open>
  Errors are values. \<open>KVError\<close> is an error returned by the libkv backend,
  \<open>JSONError\<close> one returned by encoding/json, \<open>APIError\<close> one returned by the Telegram
  client. \<open>IntnPanic\<close> is the panic of math/rand's \<open>Intn\<close> on an argument that is
  not positive, \<open>IndexPanic\<close> the run-time panic of a slice index out of range.
\<close>

datatype error =
    KVError string
  | JSONError string
  | APIError string
  | IntnPanic
  | IndexPanic

fun is_panic :: "error \<Rightarrow> bool" where
  "is_panic IntnPanic = True"
| "is_panic IndexPanic = True"
| "is_panic _ = False"

text \<open>\<open>telebot.Chat\<close>: the engine only reads its \<open>ID\<close>.\<close>

record Chat =
  Chat_ID :: int

text \<open>\<open>type CallbackData struct { Button string; AlertID string }\<close> (callback.go).\<close>

record CallbackData =
  Button :: string
  AlertID :: string

text \<open>\<open>type HandleLevel string\<close> with its three constants (alert.go).\<close>

type_synonym HandleLevel = string

definition levelOne :: HandleLevel where "levelOne = ''1''"
definition levelTwo :: HandleLevel where "levelTwo = ''2''"
definition levelThree :: HandleLevel where "levelThree = ''3''"

text \<open>
  \<open>type Member struct { Username string; Level HandleLevel; Chat telebot.Chat }\<close>
  (callback.go, the revision with \<open>GetRandomMemberByChatandLevel\<close>).
\<close>

record Member =
  Username :: string
  m_Level :: HandleLevel
  m_Chat :: Chat

text \<open>
  The older revision of the same file: \<open>Member {ID, Username, Level string}\<close> and
  \<open>Members {Chat, Members []Member}\<close>, used by \<open>GetRandomMemberByLevel\<close>.
\<close>

record Member_old =
  o_ID :: int
  o_Username :: string
  o_Level :: string

record Members =
  ms_Chat :: Chat
  ms_Members :: "Member_old list"

text \<open>\<open>type NodeExported struct { ID, Name, Owner string }\<close> (node.go).\<close>

record NodeExported =
  n_ID :: string
  n_Name :: string
  n_Owner :: string

text \<open>
  \<open>template.Alert\<close> is carried by a case and never inspected by the engine; its labels
  are kept as a list of pairs.
\<close>

type_synonym Alert = "(string \<times> string) list"

text \<open>
  \<open>type HandleAlert struct\<close> (alert.go). The two store references \<open>MemberStore\<close> and
  \<open>NodeStore\<close> point at the key-value backend, which is part of the \<open>world\<close> below.
  \<open>LastUpdate\<close> is a time in nanoseconds.
\<close>

record HandleAlert =
  ID :: string
  MessageID :: int
  Chat :: Chat
  Alert :: Alert
  Level :: HandleLevel
  LastUpdate :: int
  AutoForwardFlag :: bool

text \<open>
  A \<open>telebot.KeyboardButton\<close> and the outbound calls made on the Telegram client:
  \<open>SendMessage\<close>, \<open>EditMessageReplyMakeup\<close> on a chat and a message ID, and the
  \<open>EditMessageReplyMakeup\<close> of the oldest revision, which takes a recipient and
  addresses the message by the string its \<open>Destination()\<close> returns.
\<close>

record KeyboardButton =
  Text :: string
  Data :: string

datatype outbound =
    SendMessage Chat string "KeyboardButton list list"
  | EditMessageReplyMakeup Chat int "KeyboardButton list list"
  | EditInlineMessageReplyMakeup string "KeyboardButton list list"

text \<open>
  Everything outside the process that one operation reads: what \<open>MemberStore.List\<close> and
  \<open>NodeStore.List\<close> return, whether a Telegram call succeeds (\<open>SendMessage\<close> returns the
  ID of the message it posted), what \<open>json.Marshal\<close> returns for a \<open>CallbackData\<close>, the
  clock reading \<open>time.Now()\<close> and the draw of the freshly seeded random source.
\<close>

record world =
  kv_members :: "error + Member list"
  kv_nodes :: "error + NodeExported list"
  tg_SendMessage :: "outbound \<Rightarrow> error + int"
  tg_EditMessageReplyMakeup :: "outbound \<Rightarrow> error option"
  json_Marshal :: "CallbackData \<Rightarrow> error + string"
  time_Now :: int
  rand_draw :: nat

section \<open>callback.go: callback payload\<close>

definition strAcknowledgeData :: string where "strAcknowledgeData = ''Acknowledge''"
definition strForwardData :: string where "strForwardData = ''Forward''"

text \<open>
  \<open>func NewCallbackData(button string, alert string) (*CallbackData, error)\<close>:
  \<open>return &CallbackData{Button: button, AlertID: alert}, nil\<close>.
\<close>

definition NewCallbackData :: "string \<Rightarrow> string \<Rightarrow> error + CallbackData" where
  "NewCallbackData button alert = Inr \<lparr>Button = button, AlertID = alert\<rparr>"

section \<open>callback.go: the member directory\<close>

text \<open>
  \<open>rand.Intn(n)\<close> of math/rand: panics when \<open>n \<le> 0\<close>, and otherwise returns a number
  in \<open>[0, n)\<close>. The library is not part of the repository; the value returned is the
  source's draw \<open>r\<close> reduced into the range, so that every number of the range is the
  result of some draw.
\<close>

definition Intn :: "nat \<Rightarrow> int \<Rightarrow> error + nat" where
  "Intn r n = (if n \<le> 0 then Inl IntnPanic else Inr (r mod nat n))"

text \<open>Go's slice indexing \<open>xs[i]\<close>, which panics out of range.\<close>

definition index :: "'a list \<Rightarrow> nat \<Rightarrow> error + 'a" where
  "index xs i = (if i < length xs then Inr (xs ! i) else Inl IndexPanic)"

text \<open>
  \<open>func (s *MemberStore) GetMembersByChat(chat) ([]Member, error)\<close>: the members listed
  by the store whose chat has the ID of \<open>chat\<close>; the error of \<open>List\<close> is passed on.
\<close>

definition GetMembersByChat :: "error + Member list \<Rightarrow> Chat \<Rightarrow> error + Member list" where
  "GetMembersByChat listed chat =
     (case listed of
        Inl err \<Rightarrow> Inl err
      | Inr members \<Rightarrow> Inr (filter (\<lambda>ms. Chat_ID (m_Chat ms) = Chat_ID chat) members))"

text \<open>
  \<open>func (s *MemberStore) GetRandomMemberByChatandLevel(chat, level string) (Member, error)\<close>:
  \<^verbatim>\<open>
    groupByChat, err := s.GetMembersByChat(chat)
    if err != nil { return ret, err }
    for _, mr := range groupByChat {
      if mr.Level == HandleLevel(level) { groupByLevel = append(groupByLevel, mr) } }
    rand.Seed(time.Now().UnixNano())
    choosen := groupByLevel[rand.Intn(len(groupByLevel))]
    return choosen, nil
  \<close>
\<close>

definition GetRandomMemberByChatandLevel ::
  "error + Member list \<Rightarrow> nat \<Rightarrow> Chat \<Rightarrow> string \<Rightarrow> error + Member" where
  "GetRandomMemberByChatandLevel listed r chat level =
     (case GetMembersByChat listed chat of
        Inl err \<Rightarrow> Inl err
      | Inr groupByChat \<Rightarrow>
          (let groupByLevel = filter (\<lambda>mr. m_Level mr = level) groupByChat in
           case Intn r (int (length groupByLevel)) of
             Inl p \<Rightarrow> Inl p
           | Inr i \<Rightarrow> index groupByLevel i))"

text \<open>
  The older revision, \<open>func (m *Members) GetRandomMemberByLevel(level string) (string, error)\<close>:
  \<^verbatim>\<open>
    for _, mr := range m.Members {
      if mr.Level == level { group = append(group, mr) } }
    rand.Seed(time.Now().UnixNano())
    choosen := group[rand.Intn(len(group)-1)]
    return choosen.Username, nil
  \<close>
\<close>

definition GetRandomMemberByLevel :: "Members \<Rightarrow> nat \<Rightarrow> string \<Rightarrow> error + string" where
  "GetRandomMemberByLevel m r level =
     (let group = filter (\<lambda>mr. o_Level mr = level) (ms_Members m) in
      case Intn r (int (length group) - 1) of
        Inl p \<Rightarrow> Inl p
      | Inr i \<Rightarrow> (case index group i of Inl p \<Rightarrow> Inl p | Inr choosen \<Rightarrow> Inr (o_Username choosen)))"

section \<open>alert.go: the escalation engine\<close>

text \<open>\<open>AutoForwardTimeout time.Duration = 5 * time.Minute\<close>, in nanoseconds.\<close>

definition AutoForwardTimeout :: int where
  "AutoForwardTimeout = 5 * (60 * 1000000000)"

text \<open>
  The three format strings, applied: \<open>fmt.Sprintf(strAcknowledge, u)\<close>,
  \<open>fmt.Sprintf(strForward, u, v)\<close>, \<open>fmt.Sprintf(strAutoForward, u)\<close>.
\<close>

definition strAcknowledge :: "string \<Rightarrow> string" where
  "strAcknowledge u = ''Acknowledge by: @'' @ u"

definition strForward :: "string \<Rightarrow> string \<Rightarrow> string" where
  "strForward u v = ''@'' @ u @ '' forward to @'' @ v"

definition strAutoForward :: "string \<Rightarrow> string" where
  "strAutoForward u = ''Auto forward to next level @'' @ u"

text \<open>What the engine reads of a \<open>telebot.Callback\<close>.\<close>

record Callback =
  cb_Data :: string
  Sender_Username :: string
  Message_ID :: int

text \<open>
  \<open>func (a *HandleAlert) IncreaseLevel() bool\<close>:
  \<^verbatim>\<open>
    if a.Level == levelOne { a.Level = levelTwo
    } else if a.Level == levelTwo { a.Level = levelThree
    } else { return false }
    return true
  \<close>
  The model returns the result together with the case as the call leaves it.
\<close>

definition IncreaseLevel :: "HandleAlert \<Rightarrow> bool \<times> HandleAlert" where
  "IncreaseLevel a =
     (if Level a = levelOne then (True, a\<lparr>Level := levelTwo\<rparr>)
      else if Level a = levelTwo then (True, a\<lparr>Level := levelThree\<rparr>)
      else (False, a))"

text \<open>
  The oldest revision of alert.go has the same function over the constants
  \<open>"level1"\<close>, \<open>"level2"\<close>, \<open>"level3"\<close>.
\<close>

definition IncreaseLevel_old :: "HandleAlert \<Rightarrow> bool \<times> HandleAlert" where
  "IncreaseLevel_old a =
     (if Level a = ''level1'' then (True, a\<lparr>Level := ''level2''\<rparr>)
      else if Level a = ''level2'' then (True, a\<lparr>Level := ''level3''\<rparr>)
      else (False, a))"

text \<open>
  A call of \<open>bot.SendMessage\<close> and of \<open>bot.EditMessageReplyMakeup\<close>: the world decides
  whether it succeeds, and a call that succeeded is appended to the list of what the
  chat has received.
\<close>

definition bot_SendMessage ::
  "world \<Rightarrow> outbound \<Rightarrow> outbound list \<Rightarrow> (error + int) \<times> outbound list" where
  "bot_SendMessage w msg out =
     (case tg_SendMessage w msg of
        Inl err \<Rightarrow> (Inl err, out)
      | Inr respID \<Rightarrow> (Inr respID, out @ [msg]))"

definition bot_EditMessageReplyMakeup ::
  "world \<Rightarrow> outbound \<Rightarrow> outbound list \<Rightarrow> error option \<times> outbound list" where
  "bot_EditMessageReplyMakeup w msg out =
     (case tg_EditMessageReplyMakeup w msg of
        Some err \<Rightarrow> (Some err, out)
      | None \<Rightarrow> (None, out @ [msg]))"

text \<open>
  \<open>func (a *HandleAlert) Acknowledge(bot, callback) error\<close>:
  \<^verbatim>\<open>
    a.AutoForwardFlag = false
    respString := fmt.Sprintf(strAcknowledge, callback.Sender.Username)
    _, err := bot.SendMessage(a.Chat, respString, nil)
    if err != nil { return err }
    err = bot.EditMessageReplyMakeup(a.Chat, a.MessageID, &telebot.SendOptions{ParseMode: ...})
    if err != nil { return err }
    return nil
  \<close>
  The result is the error returned (\<open>None\<close> for nil), the case and the messages the
  chat has received.
\<close>

definition Acknowledge ::
  "world \<Rightarrow> Callback \<Rightarrow> HandleAlert \<Rightarrow> outbound list
     \<Rightarrow> error option \<times> HandleAlert \<times> outbound list" where
  "Acknowledge w callback a0 out =
     (let a = a0\<lparr>AutoForwardFlag := False\<rparr>;
          respString = strAcknowledge (Sender_Username callback)
      in case bot_SendMessage w (SendMessage (Chat a) respString []) out of
           (Inl err, out1) \<Rightarrow> (Some err, a, out1)
         | (Inr _, out1) \<Rightarrow>
             (case bot_EditMessageReplyMakeup w
                     (EditMessageReplyMakeup (Chat a) (MessageID a) []) out1 of
                (Some err, out2) \<Rightarrow> (Some err, a, out2)
              | (None, out2) \<Rightarrow> (None, a, out2)))"

text \<open>
  \<open>func (a *HandleAlert) Forward(bot, callback, data string) error\<close>:
  \<^verbatim>\<open>
    a.IncreaseLevel()
    randMember, err := a.MemberStore.GetRandomMemberByChatandLevel(a.Chat, string(a.Level))
    if err != nil { return err }
    respString := fmt.Sprintf(strForward, callback.Sender.Username, randMember.Username)
    _, err = bot.SendMessage(a.Chat, respString, nil)
    if err != nil { return err }
    err = bot.EditMessageReplyMakeup(a.Chat, a.MessageID, &telebot.SendOptions{
      ReplyMarkup: telebot.ReplyMarkup{InlineKeyboard: [][]telebot.KeyboardButton{
        []telebot.KeyboardButton{
          telebot.KeyboardButton{Text: strAcknowledgeData, Data: data}}}}})
    if err != nil { return err }
    return nil
  \<close>
  A panic of the lookup leaves the function at that point, with the case as it is then;
  it is returned as the error.
\<close>

definition Forward ::
  "world \<Rightarrow> Callback \<Rightarrow> string \<Rightarrow> HandleAlert \<Rightarrow> outbound list
     \<Rightarrow> error option \<times> HandleAlert \<times> outbound list" where
  "Forward w callback data a0 out =
     (let a = snd (IncreaseLevel a0) in
      case GetRandomMemberByChatandLevel (kv_members w) (rand_draw w) (Chat a) (Level a) of
        Inl err \<Rightarrow> (Some err, a, out)
      | Inr randMember \<Rightarrow>
          (let respString = strForward (Sender_Username callback) (Username randMember) in
           case bot_SendMessage w (SendMessage (Chat a) respString []) out of
             (Inl err, out1) \<Rightarrow> (Some err, a, out1)
           | (Inr _, out1) \<Rightarrow>
               (case bot_EditMessageReplyMakeup w
                       (EditMessageReplyMakeup (Chat a) (MessageID a)
                          [ [\<lparr>Text = strAcknowledgeData, Data = data\<rparr>] ]) out1 of
                  (Some err, out2) \<Rightarrow> (Some err, a, out2)
                | (None, out2) \<Rightarrow> (None, a, out2))))"

text \<open>
  \<open>func (a *HandleAlert) AutoForward(bot, timeout) error\<close> runs in a goroutine of its
  own, started by \<open>NewAlert\<close>:
  \<^verbatim>\<open>
    for a.AutoForwardFlag == true {
      if time.Since(a.LastUpdate) >= AutoForwardTimeout {
        a.LastUpdate = time.Now()
        a.IncreaseLevel()
        randMember, err := a.MemberStore.GetRandomMemberByChatandLevel(a.Chat, string(a.Level))
        if err != nil { return err }
        respString := fmt.Sprintf(strAutoForward, randMember.Username)
        bot.SendMessage(a.Chat, respString, nil)
      }
      time.Sleep(timeout)
    }
    return nil
  \<close>
  One evaluation of the loop condition and, if it holds, of the body is one step of
  the goroutine: it either goes to sleep or returns. \<open>time.Since\<close> and \<open>time.Now\<close>
  read the clock of the world of that step.
\<close>

datatype goroutine = Sleeping | Returned "error option"

definition AutoForward_step ::
  "world \<Rightarrow> HandleAlert \<Rightarrow> outbound list \<Rightarrow> goroutine \<times> HandleAlert \<times> outbound list" where
  "AutoForward_step w a0 out =
     (if AutoForwardFlag a0 = True then
        (if time_Now w - LastUpdate a0 \<ge> AutoForwardTimeout then
           (let a = snd (IncreaseLevel (a0\<lparr>LastUpdate := time_Now w\<rparr>)) in
            case GetRandomMemberByChatandLevel (kv_members w) (rand_draw w) (Chat a) (Level a) of
              Inl err \<Rightarrow> (Returned (Some err), a, out)
            | Inr randMember \<Rightarrow>
                (let respString = strAutoForward (Username randMember) in
                 (Sleeping, a, snd (bot_SendMessage w (SendMessage (Chat a) respString []) out))))
         else (Sleeping, a0, out))
      else (Returned None, a0, out))"

text \<open>
  \<open>func (a *HandleAlert) Resolved(bot, out string) error\<close>:
  \<^verbatim>\<open>
    a.AutoForwardFlag = false
    _, err := bot.SendMessage(a.Chat, out, &telebot.SendOptions{ParseMode: ...})
    if err != nil { return err }
    err = bot.EditMessageReplyMakeup(a.Chat, a.MessageID, &telebot.SendOptions{ParseMode: ...})
    if err != nil { return err }
    return nil
  \<close>
\<close>

definition Resolved ::
  "world \<Rightarrow> string \<Rightarrow> HandleAlert \<Rightarrow> outbound list
     \<Rightarrow> error option \<times> HandleAlert \<times> outbound list" where
  "Resolved w text a0 out =
     (let a = a0\<lparr>AutoForwardFlag := False\<rparr> in
      case bot_SendMessage w (SendMessage (Chat a) text []) out of
        (Inl err, out1) \<Rightarrow> (Some err, a, out1)
      | (Inr _, out1) \<Rightarrow>
          (case bot_EditMessageReplyMakeup w
                  (EditMessageReplyMakeup (Chat a) (MessageID a) []) out1 of
             (Some err, out2) \<Rightarrow> (Some err, a, out2)
           | (None, out2) \<Rightarrow> (None, a, out2)))"

text \<open>
  \<open>func NewAlert(id string, chat, alert, b *Bot, out string) (*HandleAlert, error)\<close>
  (callback.go): the two payloads are built and encoded, the alert text is sent with the
  two-button row, the case is allocated at \<open>levelOne\<close>, the owner of the node named like
  the case is looked up (the last matching node wins, as the loop overwrites), a random
  level-1 member is drawn when there is none, the \<open>AutoForward\<close> goroutine is started and
  the assignee is tagged. Every \<open>if err != nil { return nil, err }\<close> is a branch.
  The result is what the function returns, the case its goroutine was started on (if it
  got that far) and the messages the chat has received.
\<close>

definition NewAlert ::
  "world \<Rightarrow> string \<Rightarrow> Chat \<Rightarrow> Alert \<Rightarrow> string \<Rightarrow> outbound list
     \<Rightarrow> (error + HandleAlert) \<times> HandleAlert option \<times> outbound list" where
  "NewAlert w id' chat alert text out =
     (case NewCallbackData strAcknowledgeData id' of
        Inl err \<Rightarrow> (Inl err, None, out)
      | Inr ackData \<Rightarrow>
     (case json_Marshal w ackData of
        Inl err \<Rightarrow> (Inl err, None, out)
      | Inr jsonAckStr \<Rightarrow>
     (case NewCallbackData strForwardData id' of
        Inl err \<Rightarrow> (Inl err, None, out)
      | Inr fwdData \<Rightarrow>
     (case json_Marshal w fwdData of
        Inl err \<Rightarrow> (Inl err, None, out)
      | Inr jsonFwdStr \<Rightarrow>
     (case bot_SendMessage w
             (SendMessage chat text
                [ [\<lparr>Text = strAcknowledgeData, Data = jsonAckStr\<rparr>,
                  \<lparr>Text = strForwardData, Data = jsonFwdStr\<rparr>] ]) out of
        (Inl err, out1) \<Rightarrow> (Inl err, None, out1)
      | (Inr respID, out1) \<Rightarrow>
     (let a = \<lparr>ID = id', MessageID = respID, Chat = chat, Alert = alert, Level = levelOne,
                LastUpdate = time_Now w, AutoForwardFlag = True\<rparr> in
      case kv_nodes w of
        Inl err \<Rightarrow> (Inl err, None, out1)
      | Inr nodes \<Rightarrow>
     (let memberID0 =
            fold (\<lambda>n memberID. if n_Name n = ID a then n_Owner n else memberID) nodes []
      in
      case (if memberID0 = []
            then (case GetRandomMemberByChatandLevel (kv_members w) (rand_draw w)
                         (Chat a) (Level a) of
                    Inl err \<Rightarrow> Inl err
                  | Inr randMember \<Rightarrow> Inr (Username randMember))
            else Inr memberID0) of
        Inl err \<Rightarrow> (Inl err, None, out1)
      | Inr memberID \<Rightarrow>
     (case bot_SendMessage w (SendMessage (Chat a) (''@'' @ memberID) []) out1 of
        (Inl err, out2) \<Rightarrow> (Inl err, Some a, out2)
      | (Inr _, out2) \<Rightarrow> (Inr a, Some a, out2)))))))))"

section \<open>alert.go: the two older revisions of Forward\<close>

text \<open>
  The oldest revision of the directory,
  \<open>func (s *MemberStore) GetMembersByChat(chat telebot.Chat) (Members, error)\<close>:
  \<^verbatim>\<open>
    var ret Members
    members, err := s.List()
    if err != nil { return ret, err }
    for _, ms := range members {
      if ms.Chat.ID == chat.ID { return ms, nil } }
    return ret, err
  \<close>
  The first entry of the chat is returned; when there is none the result is the zero
  \<open>Members\<close> with a nil error. What \<open>List\<close> returns is the argument \<open>listed\<close>.
\<close>

definition GetMembersByChat_old :: "error + Members list \<Rightarrow> Chat \<Rightarrow> error + Members" where
  "GetMembersByChat_old listed chat =
     (case listed of
        Inl err \<Rightarrow> Inl err
      | Inr members \<Rightarrow>
          (case find (\<lambda>ms. Chat_ID (ms_Chat ms) = Chat_ID chat) members of
             Some ms \<Rightarrow> Inr ms
           | None \<Rightarrow> Inr \<lparr>ms_Chat = \<lparr>Chat_ID = 0\<rparr>, ms_Members = []\<rparr>))"

text \<open>
  \<open>func (a *HandleAlert) Forward(bot telebot.Bot, callback telebot.Callback) error\<close>
  of alert.go, lines 111 to 142, the oldest revision:
  \<^verbatim>\<open>
    err := bot.EditMessageReplyMakeup(a, &telebot.SendOptions{
      ReplyMarkup: telebot.ReplyMarkup{InlineKeyboard: [][]telebot.KeyboardButton{
        []telebot.KeyboardButton{
          telebot.KeyboardButton{Text: "Acknowledge", Data: "Acknowledge"}}}}})
    if err != nil { return err }
    a.IncreaseLevel()
    members, err := a.MemberStore.GetMembersByChat(a.Chat)
    if err != nil { return err }
    randMember, err := members.GetRandomMemberByLevel(string(a.Level))
    if err != nil { return err }
    respString := fmt.Sprintf(strForward, callback.Sender.Username, randMember)
    bot.SendMessage(a.Chat, respString, nil)
    return nil
  \<close>
  The edit comes first and addresses the message by \<open>a.Destination()\<close>, which is
  \<open>a.ID\<close> in this revision; the levels are the constants \<open>"level1"\<close> to \<open>"level3"\<close>;
  the result of \<open>SendMessage\<close> is dropped.
\<close>

definition Forward_old ::
  "world \<Rightarrow> error + Members list \<Rightarrow> Callback \<Rightarrow> HandleAlert \<Rightarrow> outbound list
     \<Rightarrow> error option \<times> HandleAlert \<times> outbound list" where
  "Forward_old w listed callback a0 out =
     (case bot_EditMessageReplyMakeup w
             (EditInlineMessageReplyMakeup (ID a0)
                [ [\<lparr>Text = ''Acknowledge'', Data = ''Acknowledge''\<rparr>] ]) out of
        (Some err, out1) \<Rightarrow> (Some err, a0, out1)
      | (None, out1) \<Rightarrow>
          (let a = snd (IncreaseLevel_old a0) in
           case GetMembersByChat_old listed (Chat a) of
             Inl err \<Rightarrow> (Some err, a, out1)
           | Inr members \<Rightarrow>
               (case GetRandomMemberByLevel members (rand_draw w) (Level a) of
                  Inl err \<Rightarrow> (Some err, a, out1)
                | Inr randMember \<Rightarrow>
                    (let respString = strForward (Sender_Username callback) randMember in
                     (None, a,
                      snd (bot_SendMessage w (SendMessage (Chat a) respString []) out1))))))"

text \<open>
  \<open>func (a *HandleAlert) Forward(bot *telebot.Bot, callback telebot.Callback, data string) error\<close>
  of alert.go, lines 303 to 330, the revision between the two:
  \<^verbatim>\<open>
    err := bot.EditMessageReplyMakeup(a.Chat, a.MessageID, &telebot.SendOptions{
      ReplyMarkup: telebot.ReplyMarkup{InlineKeyboard: [][]telebot.KeyboardButton{
        []telebot.KeyboardButton{
          telebot.KeyboardButton{Text: strAcknowledgeData, Data: data}}}}})
    if err != nil { return err }
    a.IncreaseLevel()
    randMember, err := a.MemberStore.GetRandomMemberByChatandLevel(a.Chat, string(a.Level))
    if err != nil { return err }
    respString := fmt.Sprintf(strForward, callback.Sender.Username, randMember.Username)
    bot.SendMessage(a.Chat, respString, nil)
    return nil
  \<close>
  Here too the edit comes before \<open>IncreaseLevel\<close> and the lookup, and the result of
  \<open>SendMessage\<close> is dropped.
\<close>

definition Forward_alert_go ::
  "world \<Rightarrow> Callback \<Rightarrow> string \<Rightarrow> HandleAlert \<Rightarrow> outbound list
     \<Rightarrow> error option \<times> HandleAlert \<times> outbound list" where
  "Forward_alert_go w callback data a0 out =
     (case bot_EditMessageReplyMakeup w
             (EditMessageReplyMakeup (Chat a0) (MessageID a0)
                [ [\<lparr>Text = strAcknowledgeData, Data = data\<rparr>] ]) out of
        (Some err, out1) \<Rightarrow> (Some err, a0, out1)
      | (None, out1) \<Rightarrow>
          (let a = snd (IncreaseLevel a0) in
           case GetRandomMemberByChatandLevel (kv_members w) (rand_draw w) (Chat a) (Level a) of
             Inl err \<Rightarrow> (Some err, a, out1)
           | Inr randMember \<Rightarrow>
               (let respString = strForward (Sender_Username callback) (Username randMember) in
                (None, a,
                 snd (bot_SendMessage w (SendMessage (Chat a) respString []) out1)))))"

section \<open>bot.go: the dispatch loop\<close>

text \<open>
  The body of the loop over \<open>HandleAlerts[cd.AlertID]\<close> when the Acknowledge button was
  pressed: \<open>h.MessageID = callback.Message.ID; err := h.Acknowledge(b.telegram, callback)\<close>.
\<close>

definition Run_Acknowledge ::
  "world \<Rightarrow> Callback \<Rightarrow> HandleAlert \<Rightarrow> outbound list
     \<Rightarrow> error option \<times> HandleAlert \<times> outbound list" where
  "Run_Acknowledge w callback h out =
     Acknowledge w callback (h\<lparr>MessageID := Message_ID callback\<rparr>) out"

text \<open>
  The body of the loop when the Forward button was pressed:
  \<^verbatim>\<open>
    h.MessageID = callback.Message.ID
    ackData, err := NewCallbackData(strAcknowledgeData, h.ID)
    if err != nil { break }
    jsonAckStr, err := json.Marshal(ackData)
    err = h.Forward(b.telegram, callback, string(jsonAckStr))
  \<close>
  The error of \<open>json.Marshal\<close> is overwritten; the string of a nil byte slice is empty.
\<close>

definition Run_Forward ::
  "world \<Rightarrow> Callback \<Rightarrow> HandleAlert \<Rightarrow> outbound list
     \<Rightarrow> error option \<times> HandleAlert \<times> outbound list" where
  "Run_Forward w callback h0 out =
     (let h = h0\<lparr>MessageID := Message_ID callback\<rparr> in
      case NewCallbackData strAcknowledgeData (ID h) of
        Inl err \<Rightarrow> (None, h, out)
      | Inr ackData \<Rightarrow>
          (let jsonAckStr = (case json_Marshal w ackData of Inl err \<Rightarrow> [] | Inr b \<Rightarrow> b)
           in Forward w callback jsonAckStr h out))"

text \<open>
  The registry \<open>HandleAlerts := make(map[string][]*HandleAlert)\<close>. Reading a key that
  is absent gives the nil slice; the only values ever stored are results of \<open>append\<close>,
  so the nil slice is the empty list. A pointer is represented by the case it points to.
\<close>

type_synonym registry = "string \<rightharpoonup> HandleAlert list"

definition entries :: "registry \<Rightarrow> string \<Rightarrow> HandleAlert list" where
  "entries HandleAlerts k = (case HandleAlerts k of None \<Rightarrow> [] | Some hs \<Rightarrow> hs)"

text \<open>
  \<open>Run\<close>, \<open>case a := <-alertchan\<close>:
  \<^verbatim>\<open>
    if HandleAlerts[a.ID] == nil {
      HandleAlerts[a.ID] = append(HandleAlerts[a.ID], a) }
  \<close>
\<close>

definition Run_alertchan :: "HandleAlert \<Rightarrow> registry \<Rightarrow> registry" where
  "Run_alertchan a HandleAlerts =
     (if entries HandleAlerts (ID a) = []
      then HandleAlerts(ID a \<mapsto> entries HandleAlerts (ID a) @ [a])
      else HandleAlerts)"

text \<open>
  \<open>sendWebhook\<close> keeps a map of its own for the resolved signal, after sending the case
  on the channel: \<open>HandleAlerts[alert.ID] = append(HandleAlerts[alert.ID], alert)\<close>.
\<close>

definition sendWebhook_save :: "HandleAlert \<Rightarrow> registry \<Rightarrow> registry" where
  "sendWebhook_save alert HandleAlerts =
     HandleAlerts(ID alert \<mapsto> entries HandleAlerts (ID alert) @ [alert])"

text \<open>The cases arriving on \<open>alertchan\<close>, taken in by \<open>Run\<close> one after the other.\<close>

definition Run_intake :: "HandleAlert list \<Rightarrow> registry \<Rightarrow> registry" where
  "Run_intake arrivals HandleAlerts = fold Run_alertchan arrivals HandleAlerts"

section \<open>The life of one case\<close>

text \<open>
  One case, the messages its chat has received, the state of its \<open>AutoForward\<close>
  goroutine and whether the process has died of a panic (none is recovered anywhere).
  The events are the ones that reach the case: a press of one of the two buttons, the
  resolved signal with the text to send, and a wake-up of the goroutine. Each event is
  taken as one step, in the world it meets.
\<close>

record sys =
  the_case :: HandleAlert
  received :: "outbound list"
  timer :: goroutine
  crashed :: bool

datatype event =
    Press_Acknowledge Callback
  | Press_Forward Callback
  | Webhook_Resolved string
  | Timer_Wakeup

definition panicked :: "error option \<Rightarrow> bool" where
  "panicked r = (case r of None \<Rightarrow> False | Some err \<Rightarrow> is_panic err)"

definition after_call :: "sys \<Rightarrow> error option \<times> HandleAlert \<times> outbound list \<Rightarrow> sys" where
  "after_call s r =
     s\<lparr>the_case := fst (snd r), received := snd (snd r), crashed := panicked (fst r)\<rparr>"

definition after_wakeup :: "sys \<Rightarrow> goroutine \<times> HandleAlert \<times> outbound list \<Rightarrow> sys" where
  "after_wakeup s r =
     s\<lparr>the_case := fst (snd r), received := snd (snd r), timer := fst r,
       crashed := (case fst r of Sleeping \<Rightarrow> False | Returned e \<Rightarrow> panicked e)\<rparr>"

fun step :: "world \<times> event \<Rightarrow> sys \<Rightarrow> sys" where
  "step (w, ev) s =
     (if crashed s then s
      else case ev of
        Press_Acknowledge callback \<Rightarrow>
          after_call s (Run_Acknowledge w callback (the_case s) (received s))
      | Press_Forward callback \<Rightarrow>
          after_call s (Run_Forward w callback (the_case s) (received s))
      | Webhook_Resolved text \<Rightarrow>
          after_call s (Resolved w text (the_case s) (received s))
      | Timer_Wakeup \<Rightarrow>
          (case timer s of
             Sleeping \<Rightarrow> after_wakeup s (AutoForward_step w (the_case s) (received s))
           | Returned e \<Rightarrow> s))"

definition run :: "(world \<times> event) list \<Rightarrow> sys \<Rightarrow> sys" where
  "run evs s = fold step evs s"

text \<open>
  The order of the responsibility tiers: \<open>levelOne\<close> below \<open>levelTwo\<close> below
  \<open>levelThree\<close>; any other string is no tier. \<open>level_rank_old\<close> is the same for the
  constants of the oldest revision.
\<close>

definition level_rank :: "HandleLevel \<Rightarrow> nat" where
  "level_rank l =
     (if l = levelOne then 1 else if l = levelTwo then 2 else if l = levelThree then 3 else 0)"

definition level_rank_old :: "HandleLevel \<Rightarrow> nat" where
  "level_rank_old l =
     (if l = ''level1'' then 1 else if l = ''level2'' then 2 else if l = ''level3'' then 3 else 0)"

section \<open>A concrete chat\<close>

text \<open>
  Chat 7 with one member on each tier, a backend and a Telegram client that answer,
  and a case of that chat at level 1.
\<close>

definition chat7 :: Chat where
  "chat7 = \<lparr>Chat_ID = 7\<rparr>"

definition alice :: Member where
  "alice = \<lparr>Username = ''alice'', m_Level = levelOne, m_Chat = chat7\<rparr>"

definition carol :: Member where
  "carol = \<lparr>Username = ''carol'', m_Level = levelTwo, m_Chat = chat7\<rparr>"

definition erin :: Member where
  "erin = \<lparr>Username = ''erin'', m_Level = levelThree, m_Chat = chat7\<rparr>"

definition world7 :: "Member list \<Rightarrow> int \<Rightarrow> world" where
  "world7 members t =
     \<lparr>kv_members = Inr members, kv_nodes = Inr [],
      tg_SendMessage = (\<lambda>msg. Inr 100), tg_EditMessageReplyMakeup = (\<lambda>msg. None),
      json_Marshal = (\<lambda>cd. Inr (Button cd @ '':'' @ AlertID cd)),
      time_Now = t, rand_draw = 0\<rparr>"

definition case_X :: HandleAlert where
  "case_X = \<lparr>ID = ''X'', MessageID = 100, Chat = chat7, Alert = [], Level = levelOne,
             LastUpdate = 0, AutoForwardFlag = True\<rparr>"

definition bob_presses :: Callback where
  "bob_presses = \<lparr>cb_Data = ''Forward:X'', Sender_Username = ''bob'', Message_ID = 100\<rparr>"

text \<open>
  The same chat in the older directory format: alice and bob on level 1, and the chat
  with alice alone.
\<close>

definition alice_old :: Member_old where
  "alice_old = \<lparr>o_ID = 1, o_Username = ''alice'', o_Level = ''level1''\<rparr>"

definition bob_old :: Member_old where
  "bob_old = \<lparr>o_ID = 2, o_Username = ''bob'', o_Level = ''level1''\<rparr>"

definition team_old :: Members where
  "team_old = \<lparr>ms_Chat = chat7, ms_Members = [alice_old, bob_old]\<rparr>"

definition solo_old :: Members where
  "solo_old = \<lparr>ms_Chat = chat7, ms_Members = [alice_old]\<rparr>"

text \<open>The case as \<open>NewAlert\<close> leaves it: nothing received yet, the goroutine asleep.\<close>

definition sys_X :: sys where
  "sys_X = \<lparr>the_case = case_X, received = [], timer = Sleeping, crashed = False\<rparr>"

definition minutes :: "int \<Rightarrow> int" where
  "minutes n = n * (60 * 1000000000)"

section \<open>Facts about the operations\<close>

lemmas level_defs = levelOne_def levelTwo_def levelThree_def

lemmas example_defs = chat7_def alice_def carol_def erin_def world7_def case_X_def
  bob_presses_def level_defs strAcknowledgeData_def strForwardData_def

lemmas directory_defs = GetRandomMemberByChatandLevel_def GetMembersByChat_def Intn_def index_def

lemmas transport_defs = bot_SendMessage_def bot_EditMessageReplyMakeup_def

lemmas engine_defs = Forward_def Acknowledge_def IncreaseLevel_def transport_defs
  strForward_def strAcknowledge_def strAutoForward_def

text \<open>\<open>IncreaseLevel\<close> writes no field but \<open>Level\<close>, and never lowers the tier.\<close>

lemma IncreaseLevel_fields:
  "ID (snd (IncreaseLevel a)) = ID a"
  "MessageID (snd (IncreaseLevel a)) = MessageID a"
  "Chat (snd (IncreaseLevel a)) = Chat a"
  "Alert (snd (IncreaseLevel a)) = Alert a"
  "LastUpdate (snd (IncreaseLevel a)) = LastUpdate a"
  "AutoForwardFlag (snd (IncreaseLevel a)) = AutoForwardFlag a"
  by (simp_all add: IncreaseLevel_def)

lemma IncreaseLevel_rank:
  "level_rank (Level a) \<le> level_rank (Level (snd (IncreaseLevel a)))"
  by (simp add: IncreaseLevel_def level_rank_def level_defs)

lemma IncreaseLevel_result:
  "fst (IncreaseLevel a) = (Level a = levelOne \<or> Level a = levelTwo)"
  by (simp add: IncreaseLevel_def)

text \<open>The case each operation leaves behind, whatever it returns.\<close>

lemma Forward_case: "fst (snd (Forward w callback data a out)) = snd (IncreaseLevel a)"
  by (simp add: Forward_def transport_defs Let_def
        split: sum.splits option.splits prod.splits)

lemma Acknowledge_case:
  "fst (snd (Acknowledge w callback a out)) = a\<lparr>AutoForwardFlag := False\<rparr>"
  by (simp add: Acknowledge_def transport_defs Let_def
        split: sum.splits option.splits prod.splits)

lemma Resolved_case:
  "fst (snd (Resolved w text a out)) = a\<lparr>AutoForwardFlag := False\<rparr>"
  by (simp add: Resolved_def transport_defs Let_def
        split: sum.splits option.splits prod.splits)

lemma AutoForward_step_case:
  "fst (snd (AutoForward_step w a out)) =
     (if AutoForwardFlag a \<and> time_Now w - LastUpdate a \<ge> AutoForwardTimeout
      then snd (IncreaseLevel (a\<lparr>LastUpdate := time_Now w\<rparr>)) else a)"
  by (simp add: AutoForward_step_def Let_def split: sum.splits)

lemma Run_Forward_case:
  "fst (snd (Run_Forward w callback h out)) =
     snd (IncreaseLevel (h\<lparr>MessageID := Message_ID callback\<rparr>))"
  by (simp add: Run_Forward_def NewCallbackData_def Forward_case Let_def)

text \<open>
  A wake-up of the goroutine that finds the window elapsed on an active case moves
  \<open>LastUpdate\<close> to the clock reading; a wake-up on a case whose flag is cleared returns
  at once.
\<close>

lemma AutoForward_step_LastUpdate:
  "AutoForwardFlag a \<Longrightarrow> time_Now w - LastUpdate a \<ge> AutoForwardTimeout \<Longrightarrow>
   LastUpdate (fst (snd (AutoForward_step w a out))) = time_Now w"
  by (simp add: AutoForward_step_case IncreaseLevel_fields)

lemma AutoForward_step_cleared:
  "\<not> AutoForwardFlag a \<Longrightarrow> AutoForward_step w a out = (Returned None, a, out)"
  by (simp add: AutoForward_step_def)

text \<open>A case that \<open>NewAlert\<close> returns is at level 1, active, stamped with the clock.\<close>

lemma NewAlert_case:
  "fst (NewAlert w id' chat alert text out) = Inr a \<Longrightarrow>
   Level a = levelOne \<and> AutoForwardFlag a \<and> LastUpdate a = time_Now w \<and> ID a = id'"
  by (auto simp add: NewAlert_def NewCallbackData_def transport_defs Let_def
        split: sum.splits prod.splits if_splits)

text \<open>One step of a case's life never lowers the tier.\<close>

lemma step_rank:
  "level_rank (Level (the_case s)) \<le> level_rank (Level (the_case (step we s)))"
proof (cases we)
  case (Pair w ev)
  have msg: "level_rank (Level (the_case s))
      \<le> level_rank (Level (snd (IncreaseLevel (the_case s\<lparr>MessageID := m\<rparr>))))" for m
    using IncreaseLevel_rank [of "the_case s\<lparr>MessageID := m\<rparr>"] by simp
  have upd: "level_rank (Level (the_case s))
      \<le> level_rank (Level (snd (IncreaseLevel (the_case s\<lparr>LastUpdate := t\<rparr>))))" for t
    using IncreaseLevel_rank [of "the_case s\<lparr>LastUpdate := t\<rparr>"] by simp
  show ?thesis
    unfolding Pair
    by (cases ev; cases "timer s")
       (simp_all add: after_call_def after_wakeup_def Run_Acknowledge_def Acknowledge_case
          Run_Forward_case Resolved_case AutoForward_step_case msg upd)
qed

lemma fold_step_rank:
  "level_rank (Level (the_case s)) \<le> level_rank (Level (the_case (fold step evs s)))"
proof (induction evs arbitrary: s)
  case Nil
  show ?case by simp
next
  case (Cons we evs)
  have "level_rank (Level (the_case s)) \<le> level_rank (Level (the_case (step we s)))"
    by (rule step_rank)
  also have "\<dots> \<le> level_rank (Level (the_case (fold step evs (step we s))))"
    by (rule Cons.IH)
  finally show ?case by simp
qed

text \<open>The registry of \<open>Run\<close>, read key by key.\<close>

lemma entries_upd: "entries (m(k \<mapsto> v)) k' = (if k' = k then v else entries m k')"
  by (simp add: entries_def)

lemma Run_alertchan_entries:
  "entries (Run_alertchan a reg) k =
     (if k = ID a \<and> entries reg k = [] then [a] else entries reg k)"
  by (auto simp add: Run_alertchan_def entries_upd)

lemma fold_Run_alertchan_entries:
  "entries (fold Run_alertchan arrivals reg) k =
     (if entries reg k \<noteq> [] then entries reg k
      else case find (\<lambda>a. ID a = k) arrivals of None \<Rightarrow> [] | Some a \<Rightarrow> [a])"
proof (induction arrivals arbitrary: reg)
  case Nil
  show ?case by simp
next
  case (Cons a arrivals)
  show ?case
    by (simp add: Cons.IH Run_alertchan_entries)
qed

text \<open>
  The map that \<open>sendWebhook\<close> keeps for the resolved signal is not the registry of
  \<open>Run\<close>: it appends every case it created.
\<close>

lemma sendWebhook_save_twice:
  "ID b = ID a \<Longrightarrow>
   entries (sendWebhook_save b (sendWebhook_save a reg)) (ID a) = entries reg (ID a) @ [a, b]"
  by (simp add: sendWebhook_save_def entries_upd)

text \<open>
  The selection of the current revision reaches every member of the candidate set; the
  one of the older revision only returns members before the last.
\<close>

lemma GetRandomMemberByChatandLevel_reaches:
  assumes "GetMembersByChat listed chat = Inr g" and "mr \<in> set g" and "m_Level mr = level"
  shows "\<exists>r. GetRandomMemberByChatandLevel listed r chat level = Inr mr"
proof -
  let ?grp = "filter (\<lambda>mr. m_Level mr = level) g"
  from assms have "mr \<in> set ?grp" by simp
  then obtain i where i: "i < length ?grp" "?grp ! i = mr"
    unfolding in_set_conv_nth by blast
  then have "GetRandomMemberByChatandLevel listed i chat level = Inr mr"
    using assms(1)
    by (cases ?grp; simp add: GetRandomMemberByChatandLevel_def Intn_def index_def Let_def)
  then show ?thesis ..
qed

lemma GetRandomMemberByLevel_before_last:
  assumes "GetRandomMemberByLevel m r level = Inr u"
  shows "\<exists>i. Suc i < length (filter (\<lambda>mr. o_Level mr = level) (ms_Members m))
           \<and> u = o_Username (filter (\<lambda>mr. o_Level mr = level) (ms_Members m) ! i)"
proof -
  let ?grp = "filter (\<lambda>mr. o_Level mr = level) (ms_Members m)"
  from assms have pos: "0 < int (length ?grp) - 1"
    by (auto simp add: GetRandomMemberByLevel_def Intn_def Let_def split: if_splits)
  then have lt: "r mod nat (int (length ?grp) - 1) < nat (int (length ?grp) - 1)"
    by simp
  then have "Suc (r mod nat (int (length ?grp) - 1)) < length ?grp" by linarith
  moreover from assms pos lt
  have "u = o_Username (?grp ! (r mod nat (int (length ?grp) - 1)))"
    by (auto simp add: GetRandomMemberByLevel_def Intn_def index_def Let_def split: if_splits)
  ultimately show ?thesis by blast
qed


text \<open>
  The two older revisions of \<open>Forward\<close> on a chat that has nobody on the next level:
  the edit has been made, the level has been raised, and the selection panics.
\<close>

lemma older_forward_no_member:
  "Forward_alert_go (world7 [alice] 0) bob_presses ''d'' case_X [] =
     (Some IntnPanic, case_X\<lparr>Level := levelTwo\<rparr>,
      [EditMessageReplyMakeup chat7 100 [ [\<lparr>Text = ''Acknowledge'', Data = ''d''\<rparr>] ]])"
  "Forward_old (world7 [] 0) (Inr [solo_old]) bob_presses (case_X\<lparr>Level := ''level1''\<rparr>) [] =
     (Some IntnPanic, case_X\<lparr>Level := ''level2''\<rparr>,
      [EditInlineMessageReplyMakeup ''X''
         [ [\<lparr>Text = ''Acknowledge'', Data = ''Acknowledge''\<rparr>] ]])"
  by (simp_all add: Forward_alert_go_def Forward_old_def GetMembersByChat_old_def
        GetRandomMemberByLevel_def IncreaseLevel_old_def solo_old_def alice_old_def
        example_defs directory_defs engine_defs)

section \<open>The claims\<close>

text \<open>
  Claim C1, as the code has it. On a case whose \<open>AutoForwardFlag\<close> is cleared
  (acknowledged or resolved), a later \<open>Forward\<close> or \<open>Acknowledge\<close> leaves the flag cleared
  and \<open>LastUpdate\<close> as it was, so the auto-forward loop is not restarted: its next
  wake-up returns without sending. \<open>Acknowledge\<close> leaves the whole case, its level
  included, unchanged. \<open>Forward\<close> has no guard on the flag: it still applies
  \<open>IncreaseLevel\<close>, and both calls still send their notices.
\<close>

theorem terminal_case_timer_not_restarted:
  assumes "AutoForwardFlag a = False"
  shows "AutoForwardFlag (fst (snd (Forward w callback data a out))) = False
     \<and> LastUpdate (fst (snd (Forward w callback data a out))) = LastUpdate a
     \<and> Level (fst (snd (Forward w callback data a out))) = Level (snd (IncreaseLevel a))
     \<and> fst (snd (Acknowledge w callback a out)) = a
     \<and> AutoForward_step w' (fst (snd (Forward w callback data a out))) out' =
         (Returned None, fst (snd (Forward w callback data a out)), out')
     \<and> AutoForward_step w' (fst (snd (Acknowledge w callback a out))) out' =
         (Returned None, a, out')"
  using assms
  by (simp add: Forward_case Acknowledge_case IncreaseLevel_fields AutoForward_step_def)

theorem terminal_case_timer_not_restarted_witness:
  "AutoForwardFlag (case_X\<lparr>AutoForwardFlag := False\<rparr>) = False
   \<and> AutoForwardFlag (fst (snd (Forward (world7 [alice, carol, erin] 0) bob_presses ''d''
         (case_X\<lparr>AutoForwardFlag := False\<rparr>) []))) = False
   \<and> fst (snd (Acknowledge (world7 [alice, carol, erin] 0) bob_presses
         (case_X\<lparr>AutoForwardFlag := False\<rparr>) [])) = case_X\<lparr>AutoForwardFlag := False\<rparr>
   \<and> AutoForward_step (world7 [alice, carol, erin] (minutes 9))
         (fst (snd (Forward (world7 [alice, carol, erin] 0) bob_presses ''d''
            (case_X\<lparr>AutoForwardFlag := False\<rparr>) []))) [] =
       (Returned None,
        fst (snd (Forward (world7 [alice, carol, erin] 0) bob_presses ''d''
            (case_X\<lparr>AutoForwardFlag := False\<rparr>) [])), [])"
proof -
  have cleared: "AutoForwardFlag (case_X\<lparr>AutoForwardFlag := False\<rparr>) = False"
    by simp
  from terminal_case_timer_not_restarted
    [OF cleared, of "world7 [alice, carol, erin] 0" bob_presses "''d''" "[]"
       "world7 [alice, carol, erin] (minutes 9)" "[]"] cleared
  show ?thesis by blast
qed

text \<open>
  The claim as the specification words it fails: chat 7 has carol on level 2, the case
  X has been acknowledged at level 1, and bob's late press of Forward raises it to
  level 2 and sends the forward notice and the edit.
\<close>

theorem forward_after_acknowledge_counterexample:
  "AutoForwardFlag (case_X\<lparr>AutoForwardFlag := False\<rparr>) = False
   \<and> Forward (world7 [alice, carol, erin] 0) bob_presses ''d''
        (case_X\<lparr>AutoForwardFlag := False\<rparr>) [] =
       (None, case_X\<lparr>AutoForwardFlag := False, Level := levelTwo\<rparr>,
        [SendMessage chat7 ''@bob forward to @carol'' [],
         EditMessageReplyMakeup chat7 100 [ [\<lparr>Text = ''Acknowledge'', Data = ''d''\<rparr>] ]])
   \<and> Level (case_X\<lparr>AutoForwardFlag := False, Level := levelTwo\<rparr>)
        \<noteq> Level (case_X\<lparr>AutoForwardFlag := False\<rparr>)"
  by (simp add: example_defs directory_defs engine_defs)




text \<open>
  Claim C3. With an empty candidate set the specification wants a NotFound error. Both
  selections instead call \<open>rand.Intn\<close> on a number that is not positive (0 in the
  current revision, -1 in the older one), which panics.
\<close>

theorem empty_candidates_panic:
  "(GetMembersByChat listed chat = Inr groupByChat \<and>
      filter (\<lambda>mr. m_Level mr = level) groupByChat = [] \<longrightarrow>
      GetRandomMemberByChatandLevel listed r chat level = Inl IntnPanic)
   \<and> (filter (\<lambda>mr. o_Level mr = level) (ms_Members m) = [] \<longrightarrow>
      GetRandomMemberByLevel m r level = Inl IntnPanic)"
  by (simp add: GetRandomMemberByChatandLevel_def GetRandomMemberByLevel_def Intn_def)

theorem empty_candidates_panic_witness:
  "GetMembersByChat (Inr [alice]) chat7 = Inr [alice]
   \<and> filter (\<lambda>mr. m_Level mr = levelTwo) [alice] = []
   \<and> GetRandomMemberByChatandLevel (Inr [alice]) 0 chat7 levelTwo = Inl IntnPanic
   \<and> filter (\<lambda>mr. o_Level mr = levelTwo) (ms_Members solo_old) = []
   \<and> GetRandomMemberByLevel solo_old 0 levelTwo = Inl IntnPanic"
  using empty_candidates_panic
    [where listed = "Inr [alice]" and chat = chat7 and groupByChat = "[alice]"
       and level = levelTwo and r = 0 and m = solo_old]
  by (simp add: GetMembersByChat_def alice_def chat7_def level_defs solo_old_def alice_old_def)

text \<open>
  Claim C4, as the code has it. On a case at level 3, \<open>Forward\<close> leaves the case as it
  is, level 3 included; it does not stop there: it draws a member of level 3 and, when
  the draw and the send succeed, the forward notice naming that member is the next
  message the chat receives.
\<close>

theorem forward_at_level_three:
  assumes "Level a = levelThree"
  shows "fst (snd (Forward w callback data a out)) = a
     \<and> (\<forall>randMember i.
          GetRandomMemberByChatandLevel (kv_members w) (rand_draw w) (Chat a) levelThree
            = Inr randMember \<longrightarrow>
          tg_SendMessage w (SendMessage (Chat a)
              (strForward (Sender_Username callback) (Username randMember)) []) = Inr i \<longrightarrow>
          (\<exists>rest. snd (snd (Forward w callback data a out)) =
             out @ SendMessage (Chat a)
                     (strForward (Sender_Username callback) (Username randMember)) [] # rest))"
proof -
  from assms have inc: "snd (IncreaseLevel a) = a"
    by (simp add: IncreaseLevel_def level_defs)
  show ?thesis
    using assms
    by (auto simp add: Forward_def inc Let_def transport_defs
          split: sum.splits option.splits)
qed

theorem forward_at_level_three_witness:
  "Level (case_X\<lparr>Level := levelThree\<rparr>) = levelThree
   \<and> GetRandomMemberByChatandLevel (kv_members (world7 [alice, carol, erin] 0))
        (rand_draw (world7 [alice, carol, erin] 0)) (Chat (case_X\<lparr>Level := levelThree\<rparr>))
        levelThree = Inr erin
   \<and> tg_SendMessage (world7 [alice, carol, erin] 0)
        (SendMessage (Chat (case_X\<lparr>Level := levelThree\<rparr>))
           (strForward (Sender_Username bob_presses) (Username erin)) []) = Inr 100
   \<and> fst (snd (Forward (world7 [alice, carol, erin] 0) bob_presses ''d''
        (case_X\<lparr>Level := levelThree\<rparr>) [])) = case_X\<lparr>Level := levelThree\<rparr>
   \<and> (\<exists>rest. snd (snd (Forward (world7 [alice, carol, erin] 0) bob_presses ''d''
        (case_X\<lparr>Level := levelThree\<rparr>) [])) =
          SendMessage chat7 ''@bob forward to @erin'' [] # rest)"
proof -
  have lookup: "GetRandomMemberByChatandLevel (kv_members (world7 [alice, carol, erin] 0))
        (rand_draw (world7 [alice, carol, erin] 0)) (Chat (case_X\<lparr>Level := levelThree\<rparr>))
        levelThree = Inr erin"
    by (simp add: example_defs directory_defs)
  have send: "tg_SendMessage (world7 [alice, carol, erin] 0)
        (SendMessage (Chat (case_X\<lparr>Level := levelThree\<rparr>))
           (strForward (Sender_Username bob_presses) (Username erin)) []) = Inr 100"
    by (simp add: world7_def)
  have lvl: "Level (case_X\<lparr>Level := levelThree\<rparr>) = levelThree"
    by simp
  have notice: "strForward (Sender_Username bob_presses) (Username erin) = ''@bob forward to @erin''"
    by (simp add: strForward_def bob_presses_def erin_def)
  have cht: "Chat (case_X\<lparr>Level := levelThree\<rparr>) = chat7"
    by (simp add: case_X_def)
  from forward_at_level_three [OF lvl, of "world7 [alice, carol, erin] 0" bob_presses "''d''" "[]"]
    lookup send
  have "fst (snd (Forward (world7 [alice, carol, erin] 0) bob_presses ''d''
          (case_X\<lparr>Level := levelThree\<rparr>) [])) = case_X\<lparr>Level := levelThree\<rparr>
     \<and> (\<exists>rest. snd (snd (Forward (world7 [alice, carol, erin] 0) bob_presses ''d''
          (case_X\<lparr>Level := levelThree\<rparr>) [])) =
            [] @ SendMessage (Chat (case_X\<lparr>Level := levelThree\<rparr>))
                 (strForward (Sender_Username bob_presses) (Username erin)) [] # rest)"
    by blast
  with lookup send lvl show ?thesis
    by (simp add: notice cht)
qed

text \<open>
  The claim as the specification words it fails: the case X at level 3, bob presses
  Forward, erin of level 3 is drawn and the forward notice is sent.
\<close>

theorem forward_at_level_three_counterexample:
  "Level (case_X\<lparr>Level := levelThree\<rparr>) = levelThree
   \<and> Forward (world7 [alice, carol, erin] 0) bob_presses ''d''
        (case_X\<lparr>Level := levelThree\<rparr>) [] =
       (None, case_X\<lparr>Level := levelThree\<rparr>,
        [SendMessage chat7 ''@bob forward to @erin'' [],
         EditMessageReplyMakeup chat7 100 [ [\<lparr>Text = ''Acknowledge'', Data = ''d''\<rparr>] ]])"
  by (simp add: example_defs directory_defs engine_defs)

text \<open>
  Claim C5, as the code has it. Every \<open>Forward\<close> that returns nil has sent one notice
  and then replaced the control row of the message by a single row holding the
  Acknowledge button alone, whatever the new level is: the Forward button is gone
  after the first forward already.
\<close>

theorem forward_control_row:
  assumes "fst (Forward w callback data a out) = None"
  shows "\<exists>notice. snd (snd (Forward w callback data a out)) =
           out @ [notice, EditMessageReplyMakeup (Chat a) (MessageID a)
                            [ [\<lparr>Text = strAcknowledgeData, Data = data\<rparr>] ]]"
  using assms
  by (auto simp add: Forward_def Let_def IncreaseLevel_fields transport_defs
        split: sum.splits option.splits)

theorem forward_control_row_witness:
  "fst (Forward (world7 [alice, carol, erin] 0) bob_presses ''d'' case_X []) = None
   \<and> (\<exists>notice. snd (snd (Forward (world7 [alice, carol, erin] 0) bob_presses ''d'' case_X [])) =
         [notice, EditMessageReplyMakeup chat7 100
                    [ [\<lparr>Text = ''Acknowledge'', Data = ''d''\<rparr>] ]])"
proof -
  have ok: "fst (Forward (world7 [alice, carol, erin] 0) bob_presses ''d'' case_X []) = None"
    by (simp add: example_defs directory_defs engine_defs)
  from forward_control_row [OF ok] ok show ?thesis
    by (simp add: case_X_def strAcknowledgeData_def)
qed

text \<open>
  The claim as the specification words it fails: bob forwards the case X from level 1
  to level 2, below 3, and the control row that the dispatch loop has \<open>Forward\<close> attach
  holds the Acknowledge button only.
\<close>

theorem forward_to_level_two_counterexample:
  "Run_Forward (world7 [alice, carol, erin] 0) bob_presses case_X [] =
     (None, case_X\<lparr>Level := levelTwo\<rparr>,
      [SendMessage chat7 ''@bob forward to @carol'' [],
       EditMessageReplyMakeup chat7 100
         [ [\<lparr>Text = ''Acknowledge'', Data = ''Acknowledge:X''\<rparr>] ]])
   \<and> \<lparr>Text = ''Forward'', Data = ''Forward:X''\<rparr>
        \<notin> set [\<lparr>Text = ''Acknowledge'', Data = ''Acknowledge:X''\<rparr>]"
  by (simp add: example_defs directory_defs engine_defs Run_Forward_def NewCallbackData_def)

text \<open>
  Claim C6. Over any sequence of button presses, resolved signals and wake-ups of the
  auto-forward goroutine, each met in a world of its own, the tier of the case never
  goes down; a case starts at level 1, the lowest. The same holds for \<open>IncreaseLevel\<close>
  of the oldest revision over its own constants.
\<close>

theorem level_never_decreases:
  "level_rank (Level (the_case s)) \<le> level_rank (Level (the_case (run evs s)))
   \<and> level_rank (Level a) \<le> level_rank (Level (snd (IncreaseLevel a)))
   \<and> level_rank_old (Level a) \<le> level_rank_old (Level (snd (IncreaseLevel_old a)))"
  by (simp add: run_def fold_step_rank IncreaseLevel_rank)
     (simp add: IncreaseLevel_old_def level_rank_old_def)

text \<open>
  Claim C7. A forward is to move \<open>LastUpdate\<close> to the time of the forward. The
  goroutine does so when it forwards; \<open>Forward\<close>, the path of the button, never writes
  \<open>LastUpdate\<close>. So when bob forwards the case X four minutes after its creation, the
  goroutine escalates it again one minute later.
\<close>

theorem user_forward_keeps_LastUpdate:
  "LastUpdate (fst (snd (Forward w callback data a out))) = LastUpdate a
   \<and> LastUpdate (fst (snd (Forward (world7 [alice, carol, erin] (minutes 4)) bob_presses ''d''
        case_X []))) \<noteq> minutes 4
   \<and> run [(world7 [alice, carol, erin] (minutes 4), Press_Forward bob_presses),
           (world7 [alice, carol, erin] (minutes 5), Timer_Wakeup)] sys_X =
       \<lparr>the_case = case_X\<lparr>Level := levelThree, LastUpdate := minutes 5\<rparr>,
        received = [SendMessage chat7 ''@bob forward to @carol'' [],
                    EditMessageReplyMakeup chat7 100
                      [ [\<lparr>Text = ''Acknowledge'', Data = ''Acknowledge:X''\<rparr>] ],
                    SendMessage chat7 ''Auto forward to next level @erin'' []],
        timer = Sleeping, crashed = False\<rparr>"
proof -
  have kept: "LastUpdate (fst (snd (Forward w callback data a out))) = LastUpdate a"
    for w callback data a out
    by (simp add: Forward_case IncreaseLevel_fields)
  have stale: "LastUpdate (fst (snd (Forward (world7 [alice, carol, erin] (minutes 4))
        bob_presses ''d'' case_X []))) \<noteq> minutes 4"
    by (simp add: kept case_X_def minutes_def)
  have again: "run [(world7 [alice, carol, erin] (minutes 4), Press_Forward bob_presses),
           (world7 [alice, carol, erin] (minutes 5), Timer_Wakeup)] sys_X =
       \<lparr>the_case = case_X\<lparr>Level := levelThree, LastUpdate := minutes 5\<rparr>,
        received = [SendMessage chat7 ''@bob forward to @carol'' [],
                    EditMessageReplyMakeup chat7 100
                      [ [\<lparr>Text = ''Acknowledge'', Data = ''Acknowledge:X''\<rparr>] ],
                    SendMessage chat7 ''Auto forward to next level @erin'' []],
        timer = Sleeping, crashed = False\<rparr>"
    by (simp add: run_def sys_X_def minutes_def after_call_def after_wakeup_def panicked_def
          Run_Forward_def NewCallbackData_def AutoForward_step_def AutoForwardTimeout_def
          example_defs directory_defs engine_defs)
  from kept stale again show ?thesis by blast
qed

text \<open>
  Claim C8. When a case arrives on the channel and the registry of the dispatch loop
  already holds an entry under its ID, the registry is left as it is. Starting from the
  empty registry and taking in any sequence of arrivals, the entry under an ID is
  exactly the first arrival with that ID, or nothing if there was none.
\<close>

theorem duplicate_intake_ignored:
  "(entries HandleAlerts (ID a) \<noteq> [] \<longrightarrow> Run_alertchan a HandleAlerts = HandleAlerts)
   \<and> entries (Run_intake arrivals Map.empty) k =
       (case find (\<lambda>a. ID a = k) arrivals of None \<Rightarrow> [] | Some a \<Rightarrow> [a])"
  by (simp add: Run_alertchan_def Run_intake_def fold_Run_alertchan_entries)
     (simp add: entries_def)

theorem duplicate_intake_ignored_witness:
  "entries (Run_alertchan case_X Map.empty) (ID (case_X\<lparr>MessageID := 200\<rparr>)) \<noteq> []
   \<and> Run_alertchan (case_X\<lparr>MessageID := 200\<rparr>) (Run_alertchan case_X Map.empty)
       = Run_alertchan case_X Map.empty
   \<and> entries (Run_intake [case_X, case_X\<lparr>MessageID := 200\<rparr>] Map.empty) ''X'' = [case_X]"
  using duplicate_intake_ignored
    [of "Run_alertchan case_X Map.empty" "case_X\<lparr>MessageID := 200\<rparr>"
        "[case_X, case_X\<lparr>MessageID := 200\<rparr>]" "''X''"]
  by (simp add: Run_alertchan_entries) (simp add: case_X_def entries_def)

text \<open>
  Claim C9. Every member of a non-empty candidate set is to be the one selected for
  some draw. The selection of the older revision draws below the length minus one:
  with alice and bob on level 1 every draw selects alice and none selects bob, and
  with alice alone every draw panics.
\<close>

theorem old_selection_skips_last:
  "GetRandomMemberByLevel team_old r ''level1'' = Inr ''alice''
   \<and> GetRandomMemberByLevel team_old r ''level1'' \<noteq> Inr ''bob''
   \<and> GetRandomMemberByLevel solo_old r ''level1'' = Inl IntnPanic"
  by (simp add: GetRandomMemberByLevel_def team_old_def solo_old_def alice_old_def
        bob_old_def Intn_def index_def)

text \<open>
  Claim C10. \<open>NewCallbackData\<close> returns the two strings in the fields \<open>Button\<close> and
  \<open>AlertID\<close> with a nil error, never an error; so the \<open>break\<close> on its error in the
  dispatch loop is never taken and \<open>Forward\<close> is always called with the encoded
  Acknowledge payload of the case.
\<close>

theorem NewCallbackData_never_fails:
  "NewCallbackData button alert = Inr \<lparr>Button = button, AlertID = alert\<rparr>
   \<and> (\<forall>err. NewCallbackData button alert \<noteq> Inl err)
   \<and> Run_Forward w callback h out =
       Forward w callback
         (case json_Marshal w \<lparr>Button = strAcknowledgeData, AlertID = ID h\<rparr> of
            Inl err \<Rightarrow> [] | Inr b \<Rightarrow> b)
         (h\<lparr>MessageID := Message_ID callback\<rparr>) out"
  by (simp add: NewCallbackData_def Run_Forward_def Let_def)

end
